theory Spec2Isabelle
  imports Complex_Main
begin

section \<open>Python values, errors and warnings\<close>

text \<open>
  The exceptions that the wrapper in \<^verbatim>\<open>sktime/forecasting/conformal.py\<close> raises
  itself, or that reach it from numpy, pandas and the wrapped forecaster.
\<close>

datatype error =
  TypeError | ValueError | IndexError | KeyError | AttributeError | UnboundLocalError

text \<open>The one warning of the module: the length of the training slice is its payload.\<close>

datatype warning = CouldntPredict nat

text \<open>
  The scalar arguments a caller can pass for \<^verbatim>\<open>initial_window\<close>, \<^verbatim>\<open>sample_frac\<close>
  and \<^verbatim>\<open>n_jobs\<close>. A Python float is a real number here, with NaN as a value of its
  own; rounding of floating-point arithmetic is not modelled.
\<close>

datatype pyval =
  PyNone | PyBool bool | PyInt int | PyFloat real | PyNaN | PyStr string

text \<open>Truthiness, as \<^verbatim>\<open>if sample_frac:\<close> reads it.\<close>

fun py_truthy :: "pyval \<Rightarrow> bool" where
  "py_truthy PyNone = False"
| "py_truthy (PyBool b) = b"
| "py_truthy (PyInt i) = (i \<noteq> 0)"
| "py_truthy (PyFloat x) = (x \<noteq> 0)"
| "py_truthy PyNaN = True"
| "py_truthy (PyStr s) = (s \<noteq> [])"

text \<open>
  \<^verbatim>\<open>np.asarray(v).dtype.kind\<close> for a scalar: an integer is of kind \<^verbatim>\<open>i\<close> when it
  fits a signed 64-bit integer, of kind \<^verbatim>\<open>u\<close> when it only fits an unsigned one, and
  an object otherwise.
\<close>

fun dtype_kind :: "pyval \<Rightarrow> char" where
  "dtype_kind PyNone = CHR ''O''"
| "dtype_kind (PyBool b) = CHR ''b''"
| "dtype_kind (PyInt i) =
     (if - (2 ^ 63) \<le> i \<and> i < 2 ^ 63 then CHR ''i''
      else if 2 ^ 63 \<le> i \<and> i < 2 ^ 64 then CHR ''u'' else CHR ''O'')"
| "dtype_kind (PyFloat x) = CHR ''f''"
| "dtype_kind PyNaN = CHR ''f''"
| "dtype_kind (PyStr s) = CHR ''U''"

text \<open>
  The two comparisons of a number with an integer bound that the parser makes. They are
  only evaluated on values of kind \<^verbatim>\<open>i\<close> or \<^verbatim>\<open>f\<close>; every comparison with NaN is
  false.
\<close>

fun py_ge :: "pyval \<Rightarrow> int \<Rightarrow> bool" where
  "py_ge (PyInt i) b = (i \<ge> b)"
| "py_ge (PyFloat x) b = (x \<ge> of_int b)"
| "py_ge _ b = False"

fun py_le :: "pyval \<Rightarrow> int \<Rightarrow> bool" where
  "py_le (PyInt i) b = (i \<le> b)"
| "py_le (PyFloat x) b = (x \<le> of_int b)"
| "py_le _ b = False"

section \<open>The window parser\<close>

text \<open>
  \<^verbatim>\<open>ConformalIntervals._parse_initial_window\<close>, with \<open>n_samples = len(y)\<close> as its
  first argument. The default replaces a missing value before the checks run, so the
  default goes through the same range check as a user's integer. The last two branches
  bind \<^verbatim>\<open>n_initial_window\<close>; \<^verbatim>\<open>floor\<close> of NaN raises \<^verbatim>\<open>ValueError\<close>.
\<close>

definition parse_initial_window :: "nat \<Rightarrow> pyval \<Rightarrow> error + int" where
  "parse_initial_window n_samples initial_window0 =
     (let initial_window =
            (if initial_window0 = PyNone
             then PyInt (max 10 \<lfloor>(1 / 10) * real n_samples\<rfloor>)
             else initial_window0);
          initial_window_type = dtype_kind initial_window
      in if (initial_window_type = CHR ''i''
               \<and> (py_ge initial_window (int n_samples) \<or> py_le initial_window 0))
            \<or> (initial_window_type = CHR ''f''
               \<and> (py_le initial_window 0 \<or> py_ge initial_window 1))
         then Inl ValueError
         else if initial_window \<noteq> PyNone
                 \<and> initial_window_type \<notin> {CHR ''i'', CHR ''f''}
         then Inl ValueError
         else if initial_window_type = CHR ''f''
         then (case initial_window of
                 PyFloat x \<Rightarrow> Inr \<lfloor>x * real n_samples\<rfloor>
               | _ \<Rightarrow> Inl ValueError)
         else if initial_window_type = CHR ''i''
         then (case initial_window of
                 PyInt i \<Rightarrow> Inr i
               | _ \<Rightarrow> Inl UnboundLocalError)
         else Inl UnboundLocalError)"


section \<open>Series, the residual matrix and numpy's array functions\<close>

text \<open>
  A float is a real number or NaN (\<open>None\<close>). A series is a list of rows
  \<open>(index label, value)\<close>; the residual matrix is a data frame whose row index and
  column index are the same list of labels (it is created with
  \<^verbatim>\<open>columns=y_index, index=y_index\<close> and only written at labels it already has).
\<close>

type_synonym float = "real option"
type_synonym label = int
type_synonym series = "(label \<times> float) list"

record resid_matrix =
  rm_index :: "label list"
  rm_values :: "float list list"

definition fadd :: "float \<Rightarrow> float \<Rightarrow> float" where
  "fadd a b = (case (a, b) of (Some x, Some y) \<Rightarrow> Some (x + y) | _ \<Rightarrow> None)"

definition fmul :: "float \<Rightarrow> float \<Rightarrow> float" where
  "fmul a b = (case (a, b) of (Some x, Some y) \<Rightarrow> Some (x * y) | _ \<Rightarrow> None)"

text \<open>
  \<^verbatim>\<open>np.diagonal(a, offset)\<close> of a two-dimensional array: the entries \<open>a[i, i + offset]\<close>;
  a negative offset reads below the main diagonal.
\<close>

definition np_diagonal :: "float list list \<Rightarrow> int \<Rightarrow> float list" where
  "np_diagonal a offset =
     (let nrows = length a;
          ncols = (case a of [] \<Rightarrow> 0 | r # _ \<Rightarrow> length r)
      in if 0 \<le> offset
         then map (\<lambda>i. a ! i ! (i + nat offset)) [0 ..< min nrows (ncols - nat offset)]
         else map (\<lambda>i. a ! (i + nat (- offset)) ! i) [0 ..< min (nrows - nat (- offset)) ncols])"

text \<open>\<^verbatim>\<open>resids[~np.isnan(resids)]\<close>\<close>

definition dropna :: "float list \<Rightarrow> real list" where
  "dropna xs = map the (filter (\<lambda>x. x \<noteq> None) xs)"

definition np_repeat :: "'a list \<Rightarrow> nat \<Rightarrow> 'a list" where
  "np_repeat xs k = concat (map (replicate k) xs)"

definition np_tile :: "'a list \<Rightarrow> nat \<Rightarrow> 'a list" where
  "np_tile xs k = concat (replicate k xs)"

text \<open>
  numpy's default quantile estimator (method \<^verbatim>\<open>linear\<close>, type 7) on a sorted,
  non-empty sample: the virtual index \<open>q * (n - 1)\<close> is interpolated between its two
  neighbouring order statistics.
\<close>

definition quantile_linear :: "real list \<Rightarrow> real \<Rightarrow> real" where
  "quantile_linear s q =
     (let n = length s;
          v = q * real (n - 1);
          lo = nat \<lfloor>v\<rfloor>;
          hi = min (lo + 1) (n - 1);
          g = v - real lo
      in s ! lo + g * (s ! hi - s ! lo))"

text \<open>
  \<^verbatim>\<open>np.quantile(a, q)\<close> for a one-dimensional sample without NaN and a vector of
  probabilities: a probability outside \<open>[0, 1]\<close> raises \<^verbatim>\<open>ValueError\<close>. On an empty
  sample the result is NaN at every probability (numpy releases differ there; no
  statement below rests on that case).
\<close>

definition np_quantile :: "real list \<Rightarrow> real list \<Rightarrow> error + float list" where
  "np_quantile a qs =
     (if \<exists>q \<in> set qs. q < 0 \<or> 1 < q then Inl ValueError
      else if a = [] then Inr (map (\<lambda>q. None) qs)
      else Inr (map (\<lambda>q. Some (quantile_linear (sort a) q)) qs))"

section \<open>The quantile engine and the interval assembler\<close>

definition ALLOWED_METHODS :: "string list" where
  "ALLOWED_METHODS =
     [''empirical'', ''empirical_residual'', ''conformal'', ''conformal_bonferroni'']"

definition ABS_RESIDUAL_BASED :: "string list" where
  "ABS_RESIDUAL_BASED = [''conformal'', ''conformal_bonferroni'', ''empirical_residual'']"

text \<open>
  The body of the loop over horizons in \<^verbatim>\<open>_predict_interval\<close> (lines 233 to 249), for
  one relative offset. The source has an \<^verbatim>\<open>if\<close> for \<^verbatim>\<open>empirical\<close> followed by a
  separate \<^verbatim>\<open>if/elif/elif\<close> chain; \<^verbatim>\<open>pred_int_row\<close> is unbound when no branch
  assigns it.
\<close>

definition pred_int_row ::
  "string \<Rightarrow> real list \<Rightarrow> nat \<Rightarrow> float list list \<Rightarrow> int \<Rightarrow> error + float list" where
  "pred_int_row method coverage len_fh residuals_matrix offset =
     (let resids = dropna (np_diagonal residuals_matrix offset);
          abs_resids = map abs resids;
          coverage2 = np_repeat coverage 2;
          row1 = (if method = ''empirical''
                  then Some (np_quantile resids
                         (map (\<lambda>(t, c). 0.5 + t * c)
                            (zip (np_tile [- 0.5, 0.5] (length coverage)) coverage2)))
                  else None);
          row2 = (if method = ''empirical_residual''
                  then Some (np_quantile abs_resids (map (\<lambda>c. 0.5 - 0.5 * c) coverage2))
                  else if method = ''conformal_bonferroni''
                  then (let alphas = map (\<lambda>c. 1 - c) coverage2
                        in Some (np_quantile abs_resids
                                   (map (\<lambda>a. 1 - a / real len_fh) alphas)))
                  else if method = ''conformal''
                  then Some (np_quantile abs_resids coverage2)
                  else row1)
      in case row2 of None \<Rightarrow> Inl UnboundLocalError | Some r \<Rightarrow> r)"

text \<open>The loop itself: the first exception ends it.\<close>

fun pred_int_rows ::
  "string \<Rightarrow> real list \<Rightarrow> nat \<Rightarrow> float list list \<Rightarrow> int list \<Rightarrow> error + float list list" where
  "pred_int_rows method coverage len_fh residuals_matrix [] = Inr []"
| "pred_int_rows method coverage len_fh residuals_matrix (offset # fh) =
     (case pred_int_row method coverage len_fh residuals_matrix offset of
        Inl e \<Rightarrow> Inl e
      | Inr row \<Rightarrow>
          (case pred_int_rows method coverage len_fh residuals_matrix fh of
             Inl e \<Rightarrow> Inl e
           | Inr rows \<Rightarrow> Inr (row # rows)))"

text \<open>
  The columns \<^verbatim>\<open>MultiIndex.from_product([["Coverage"], coverage, ["lower", "upper"]])\<close>
  and the loop over them (lines 257 to 262): \<open>sign\<close> is \<open>1 - 2 * (col[2] == "lower")\<close>
  for the methods on absolute residuals and \<open>1\<close> otherwise. Assigning the index of
  \<open>y_pred\<close> raises \<^verbatim>\<open>ValueError\<close> when the lengths differ.
\<close>

datatype side = Lower | Upper

definition cols :: "real list \<Rightarrow> (real \<times> side) list" where
  "cols coverage = concat (map (\<lambda>c. [(c, Lower), (c, Upper)]) coverage)"

definition col_sign :: "string \<Rightarrow> real \<times> side \<Rightarrow> real" where
  "col_sign method col =
     (if method \<in> set ABS_RESIDUAL_BASED
      then 1 - 2 * (if snd col = Lower then 1 else 0)
      else 1)"

definition assemble ::
  "string \<Rightarrow> real list \<Rightarrow> int list \<Rightarrow> float list \<Rightarrow> float list list \<Rightarrow> error + float list list" where
  "assemble method coverage fh y_pred rows =
     (if length y_pred \<noteq> length fh then Inl ValueError
      else Inr (map (\<lambda>(yp, row).
                  map (\<lambda>(col, v). fadd yp (fmul (Some (col_sign method col)) v))
                    (zip (cols coverage) row))
                (zip y_pred rows)))"

section \<open>The wrapped forecaster\<close>

text \<open>
  The point forecaster is a collaborator: the wrapper only calls its \<^verbatim>\<open>clone\<close>,
  \<^verbatim>\<open>fit\<close>, \<^verbatim>\<open>predict\<close>, \<^verbatim>\<open>predict_residuals\<close> and \<^verbatim>\<open>update\<close>. Its state is
  a value of type \<open>'f\<close>; a method that mutates the forecaster returns the new state, and
  every method may raise. Exogenous data is optional and passed on untouched.
\<close>

type_synonym 'x exog = "(label \<times> 'x) list option"

record ('f, 'x) forecaster_ops =
  f_clone :: "'f \<Rightarrow> 'f"
  f_fit :: "'f \<Rightarrow> series \<Rightarrow> 'x exog \<Rightarrow> label list option \<Rightarrow> error + 'f"
  f_predict :: "'f \<Rightarrow> int list \<Rightarrow> 'x exog \<Rightarrow> error + float list"
  f_predict_residuals :: "'f \<Rightarrow> series \<Rightarrow> 'x exog \<Rightarrow> error + series"
  f_update :: "'f \<Rightarrow> series \<Rightarrow> 'x exog \<Rightarrow> bool \<Rightarrow> error + 'f"

section \<open>The wrapper's state\<close>

text \<open>
  The attributes of a \<^verbatim>\<open>ConformalIntervals\<close> object, each under its source name after
  \<open>self_\<close>; the trailing underscore of a fitted attribute is written as a prime, and
  an attribute that has not been set is \<open>None\<close>. \<open>self_y\<close> and \<open>self_X\<close> are the
  training data that the base class stores in \<^verbatim>\<open>_y\<close> and \<^verbatim>\<open>_X\<close>.
\<close>

record ('f, 'x) wrapper =
  self_forecaster :: "'f"
  self_method :: string
  self_verbose :: bool
  self_initial_window :: pyval
  self_sample_frac :: pyval
  self_n_jobs :: pyval
  self_fh_early' :: "bool option"
  self_forecaster' :: "'f option"
  self_residuals_matrix' :: "resid_matrix option"
  self_y :: series
  self_X :: "'x exog"

text \<open>
  \<^verbatim>\<open>ConformalIntervals.__init__\<close>: the method tag is the only argument it checks.
\<close>

definition CI_init ::
  "'f \<Rightarrow> pyval \<Rightarrow> pyval \<Rightarrow> pyval \<Rightarrow> bool \<Rightarrow> pyval \<Rightarrow> error + ('f, 'x) wrapper" where
  "CI_init forecaster method initial_window sample_frac verbose n_jobs =
     (case method of
        PyStr m \<Rightarrow>
          if m \<notin> set ALLOWED_METHODS then Inl ValueError
          else Inr \<lparr> self_forecaster = forecaster, self_method = m,
                     self_verbose = verbose, self_initial_window = initial_window,
                     self_sample_frac = sample_frac, self_n_jobs = n_jobs,
                     self_fh_early' = None, self_forecaster' = None,
                     self_residuals_matrix' = None, self_y = [], self_X = None \<rparr>
      | _ \<Rightarrow> Inl TypeError)"

section \<open>The residual matrix builder\<close>

text \<open>
  Modelled from the spec: \<^verbatim>\<open>get_slice\<close> of \<^verbatim>\<open>sktime.datatypes._utilities\<close> is not
  among the sources. Section 4.2 has \<open>y_train = y[:i]\<close> and \<open>y_test = y[i:]\<close> for an
  anchor label \<open>i\<close>: the rows before the label, and the rows from the label on.
\<close>

definition get_slice ::
  "(label \<times> 'a) list \<Rightarrow> label option \<Rightarrow> label option \<Rightarrow> (label \<times> 'a) list" where
  "get_slice obj start fin =
     filter (\<lambda>(i, v). (case start of None \<Rightarrow> True | Some a \<Rightarrow> a \<le> i)
                    \<and> (case fin of None \<Rightarrow> True | Some b \<Rightarrow> i < b)) obj"

text \<open>\<^verbatim>\<open>y.iloc[k:]\<close>: a negative start counts from the end.\<close>

definition iloc_from :: "'a list \<Rightarrow> int \<Rightarrow> 'a list" where
  "iloc_from xs k =
     (if 0 \<le> k then drop (nat k) xs else drop (nat (int (length xs) + k)) xs)"

text \<open>\<^verbatim>\<open>pd.DataFrame(columns=y_index, index=y_index, dtype="float")\<close>: all NaN.\<close>

definition nan_frame :: "label list \<Rightarrow> resid_matrix" where
  "nan_frame y_index =
     \<lparr> rm_index = y_index,
       rm_values = replicate (length y_index) (replicate (length y_index) None) \<rparr>"

text \<open>\<^verbatim>\<open>Index.difference\<close>: the labels of the first index that the second lacks, sorted.\<close>

definition index_difference :: "label list \<Rightarrow> label list \<Rightarrow> label list" where
  "index_difference idx other = sort (remdups (filter (\<lambda>i. i \<notin> set other) idx))"

text \<open>\<^verbatim>\<open>Index.max()\<close>: NaN on an empty index.\<close>

fun index_max :: "label list \<Rightarrow> label option" where
  "index_max [] = None"
| "index_max (x # xs) = Some (fold max xs x)"

text \<open>\<open><\<close> on two such values: false when either side is NaN.\<close>

definition nan_less :: "label option \<Rightarrow> label option \<Rightarrow> bool" where
  "nan_less a b = (case (a, b) of (Some x, Some y) \<Rightarrow> x < y | _ \<Rightarrow> False)"

fun pos :: "label list \<Rightarrow> label \<Rightarrow> nat option" where
  "pos [] l = None"
| "pos (x # xs) l = (if x = l then Some 0 else map_option Suc (pos xs l))"

text \<open>
  \<^verbatim>\<open>residuals_matrix.loc[old.index, old.columns] = old\<close>: pandas raises
  \<^verbatim>\<open>KeyError\<close> when a row label of the list is missing from the frame; otherwise the
  cells at the old labels take the old values.
\<close>

definition loc_assign_block :: "resid_matrix \<Rightarrow> resid_matrix \<Rightarrow> error + resid_matrix" where
  "loc_assign_block m old =
     (if \<not> set (rm_index old) \<subseteq> set (rm_index m) then Inl KeyError
      else Inr (m\<lparr> rm_values :=
             map (\<lambda>(r, row).
                    map (\<lambda>(c, v).
                           (case (pos (rm_index old) r, pos (rm_index old) c) of
                              (Some i, Some j) \<Rightarrow> rm_values old ! i ! j
                            | _ \<Rightarrow> v))
                        (zip (rm_index m) row))
                 (zip (rm_index m) (rm_values m)) \<rparr>))"

text \<open>
  \<^verbatim>\<open>residuals_matrix.loc[id] = residuals\<close>: the series is aligned with the columns;
  a column that the series has no row for becomes NaN.
\<close>

definition loc_assign_row :: "resid_matrix \<Rightarrow> label \<Rightarrow> series \<Rightarrow> resid_matrix" where
  "loc_assign_row m id' residuals =
     m\<lparr> rm_values :=
          map (\<lambda>(r, row).
                 if r = id'
                 then map (\<lambda>c. (case map_of residuals c of None \<Rightarrow> None | Some v \<Rightarrow> v))
                        (rm_index m)
                 else row)
              (zip (rm_index m) (rm_values m)) \<rparr>"

text \<open>
  \<^verbatim>\<open>y_index.to_series().sample(frac=sample_frac)\<close>. No \<^verbatim>\<open>random_state\<close> is passed, so
  pandas draws with numpy's process-wide generator: the positions it returns for a
  fraction and a population size are an input of the run, \<open>draw\<close>. pandas then takes
  the labels at these positions.
\<close>

definition series_sample ::
  "(pyval \<Rightarrow> nat \<Rightarrow> error + nat list) \<Rightarrow> pyval \<Rightarrow> label list \<Rightarrow> error + label list" where
  "series_sample draw frac' y_index =
     (case draw frac' (length y_index) of
        Inl e \<Rightarrow> Inl e
      | Inr locs \<Rightarrow>
          if \<exists>p \<in> set locs. length y_index \<le> p then Inl IndexError
          else Inr (map (\<lambda>p. y_index ! p) locs))"

text \<open>
  The inner function \<^verbatim>\<open>_get_residuals_matrix_row\<close> (lines 381 to 396). The local
  variable \<^verbatim>\<open>residuals\<close> is bound by the \<^verbatim>\<open>try\<close> body only; the handler of
  \<^verbatim>\<open>IndexError\<close> warns and binds nothing, and \<^verbatim>\<open>return residuals\<close> reads the variable.
\<close>

definition get_residuals_matrix_row ::
  "('f, 'x) forecaster_ops \<Rightarrow> 'f \<Rightarrow> series \<Rightarrow> 'x exog \<Rightarrow> label
     \<Rightarrow> warning list \<times> (error + series)" where
  "get_residuals_matrix_row ops forecaster y X id' =
     (let y_train = get_slice y None (Some id');
          y_test = get_slice y (Some id') None;
          X_train = map_option (\<lambda>x. get_slice x None (Some id')) X;
          X_test = map_option (\<lambda>x. get_slice x (Some id') None) X
      in case f_fit ops forecaster y_train X_train (Some (map fst y_test)) of
           Inl e \<Rightarrow> ([], Inl e)
         | Inr fitted \<Rightarrow>
             (case f_predict_residuals ops fitted y_test X_test of
                Inr r \<Rightarrow>
                  (let residuals = Some r
                   in ([], case residuals of None \<Rightarrow> Inl UnboundLocalError | Some v \<Rightarrow> Inr v))
              | Inl e \<Rightarrow>
                  if e = IndexError
                  then (let residuals = None
                        in ([CouldntPredict (length y_train)],
                            case residuals of None \<Rightarrow> Inl UnboundLocalError | Some v \<Rightarrow> Inr v))
                  else ([], Inl e)))"

text \<open>
  \<^verbatim>\<open>Parallel(n_jobs=self.n_jobs)(delayed(...)(forecaster.clone(), y, X, id) for id in y_index)\<close>:
  joblib returns the results in the order of the tasks, each task works on a clone of its
  own, and an exception of a task is raised in the caller. The tasks are run here one
  after the other.
\<close>

fun parallel_rows ::
  "('f, 'x) forecaster_ops \<Rightarrow> 'f \<Rightarrow> series \<Rightarrow> 'x exog \<Rightarrow> label list
     \<Rightarrow> warning list \<times> (error + series list)" where
  "parallel_rows ops forecaster y X [] = ([], Inr [])"
| "parallel_rows ops forecaster y X (id' # ids) =
     (case get_residuals_matrix_row ops (f_clone ops forecaster) y X id' of
        (ws, Inl e) \<Rightarrow> (ws, Inl e)
      | (ws, Inr r) \<Rightarrow>
          (case parallel_rows ops forecaster y X ids of
             (ws', Inl e) \<Rightarrow> (ws @ ws', Inl e)
           | (ws', Inr rs) \<Rightarrow> (ws @ ws', Inr (r # rs))))"

text \<open>
  \<^verbatim>\<open>ConformalIntervals._compute_sliding_residuals\<close>. \<open>s\<close> is \<^verbatim>\<open>self\<close>, read for
  \<^verbatim>\<open>residuals_matrix_\<close> when \<open>update\<close> is set.
\<close>

definition compute_sliding_residuals ::
  "('f, 'x) forecaster_ops \<Rightarrow> (pyval \<Rightarrow> nat \<Rightarrow> error + nat list) \<Rightarrow> ('f, 'x) wrapper
     \<Rightarrow> series \<Rightarrow> 'x exog \<Rightarrow> 'f \<Rightarrow> pyval \<Rightarrow> pyval \<Rightarrow> bool
     \<Rightarrow> warning list \<times> (error + resid_matrix)" where
  "compute_sliding_residuals ops draw s y X forecaster initial_window sample_frac update =
     (case parse_initial_window (length y) initial_window of
        Inl e \<Rightarrow> ([], Inl e)
      | Inr n_initial_window \<Rightarrow>
          (let y_index0 = map fst (iloc_from y n_initial_window);
               residuals_matrix0 = nan_frame y_index0
           in case (case (if update then self_residuals_matrix' s else None) of
                      None \<Rightarrow> Inr (y_index0, residuals_matrix0)
                    | Some old \<Rightarrow>
                        (case loc_assign_block residuals_matrix0 old of
                           Inl e \<Rightarrow> Inl e
                         | Inr m \<Rightarrow> Inr (index_difference y_index0 (rm_index old), m))) of
                Inl e \<Rightarrow> ([], Inl e)
              | Inr (y_index1, residuals_matrix1) \<Rightarrow>
                  (case (if py_truthy sample_frac
                         then series_sample draw sample_frac y_index1
                         else Inr y_index1) of
                     Inl e \<Rightarrow> ([], Inl e)
                   | Inr y_index \<Rightarrow>
                       (case parallel_rows ops forecaster y X y_index of
                          (ws, Inl e) \<Rightarrow> (ws, Inl e)
                        | (ws, Inr all_residuals) \<Rightarrow>
                            (ws, Inr (fold (\<lambda>(id', r) m. loc_assign_row m id' r)
                                        (zip y_index all_residuals) residuals_matrix1))))))"

section \<open>Fit, update and interval prediction\<close>

text \<open>
  A method that mutates \<^verbatim>\<open>self\<close> returns the object as it is when the method ends, the
  warnings emitted, and the exception raised, if any.
\<close>

definition CI_fit ::
  "('f, 'x) forecaster_ops \<Rightarrow> (pyval \<Rightarrow> nat \<Rightarrow> error + nat list) \<Rightarrow> ('f, 'x) wrapper
     \<Rightarrow> series \<Rightarrow> 'x exog \<Rightarrow> label list option
     \<Rightarrow> ('f, 'x) wrapper \<times> warning list \<times> error option" where
  "CI_fit ops draw s y X fh =
     (let s1 = s\<lparr> self_fh_early' := Some (fh \<noteq> None),
                  self_forecaster' := Some (f_clone ops (self_forecaster s)) \<rparr>
      in case f_fit ops (f_clone ops (self_forecaster s)) y X fh of
           Inl e \<Rightarrow> (s1, [], Some e)
         | Inr fitted \<Rightarrow>
             (let s2 = s1\<lparr> self_forecaster' := Some fitted \<rparr>
              in if fh \<noteq> None
                 then (case compute_sliding_residuals ops draw s2 y X (self_forecaster s2)
                              (self_initial_window s2) (self_sample_frac s2) False of
                         (ws, Inl e) \<Rightarrow> (s2, ws, Some e)
                       | (ws, Inr m) \<Rightarrow> (s2\<lparr> self_residuals_matrix' := Some m \<rparr>, ws, None))
                 else (s2, [], None)))"

definition CI_predict ::
  "('f, 'x) forecaster_ops \<Rightarrow> ('f, 'x) wrapper \<Rightarrow> int list \<Rightarrow> 'x exog \<Rightarrow> error + float list" where
  "CI_predict ops s fh X =
     (case self_forecaster' s of
        None \<Rightarrow> Inl AttributeError
      | Some fitted \<Rightarrow> f_predict ops fitted fh X)"

definition CI_update ::
  "('f, 'x) forecaster_ops \<Rightarrow> (pyval \<Rightarrow> nat \<Rightarrow> error + nat list) \<Rightarrow> ('f, 'x) wrapper
     \<Rightarrow> series \<Rightarrow> 'x exog \<Rightarrow> bool
     \<Rightarrow> ('f, 'x) wrapper \<times> warning list \<times> error option" where
  "CI_update ops draw s y X update_params =
     (case self_forecaster' s of
        None \<Rightarrow> (s, [], Some AttributeError)
      | Some fitted \<Rightarrow>
          (case f_update ops fitted y X update_params of
             Inl e \<Rightarrow> (s, [], Some e)
           | Inr updated \<Rightarrow>
               (let s1 = s\<lparr> self_forecaster' := Some updated \<rparr>
                in case self_residuals_matrix' s1 of
                     None \<Rightarrow> (s1, [], Some AttributeError)
                   | Some old \<Rightarrow>
                       if nan_less (index_max (rm_index old)) (index_max (map fst y))
                       then (case compute_sliding_residuals ops draw s1 y X updated
                                    (self_initial_window s1) (self_sample_frac s1) True of
                               (ws, Inl e) \<Rightarrow> (s1, ws, Some e)
                             | (ws, Inr m) \<Rightarrow>
                                 (s1\<lparr> self_residuals_matrix' := Some m \<rparr>, ws, None))
                       else (s1, [], None))))"

text \<open>
  Lines 217 to 226 of \<^verbatim>\<open>_predict_interval\<close>: the cached matrix when \<open>fh\<close> was
  passed to \<^verbatim>\<open>fit\<close>, a fresh one from the stored training data otherwise.
\<close>

definition get_residuals_matrix ::
  "('f, 'x) forecaster_ops \<Rightarrow> (pyval \<Rightarrow> nat \<Rightarrow> error + nat list) \<Rightarrow> ('f, 'x) wrapper
     \<Rightarrow> warning list \<times> (error + resid_matrix)" where
  "get_residuals_matrix ops draw s =
     (case self_fh_early' s of
        None \<Rightarrow> ([], Inl AttributeError)
      | Some early \<Rightarrow>
          if early
          then (case self_residuals_matrix' s of
                  None \<Rightarrow> ([], Inl AttributeError)
                | Some m \<Rightarrow> ([], Inr m))
          else compute_sliding_residuals ops draw s (self_y s) (self_X s)
                 (self_forecaster s) (self_initial_window s) (self_sample_frac s) False)"

text \<open>
  \<^verbatim>\<open>ConformalIntervals._predict_interval\<close>; \<open>fh\<close> holds the relative offsets
  \<^verbatim>\<open>fh.to_relative(self.cutoff)\<close>, one per requested horizon. The result has one row
  per horizon and, in each row, the lower and the upper bound of every coverage.
\<close>

definition CI_predict_interval ::
  "('f, 'x) forecaster_ops \<Rightarrow> (pyval \<Rightarrow> nat \<Rightarrow> error + nat list) \<Rightarrow> ('f, 'x) wrapper
     \<Rightarrow> int list \<Rightarrow> 'x exog \<Rightarrow> real list
     \<Rightarrow> warning list \<times> (error + float list list)" where
  "CI_predict_interval ops draw s fh X coverage =
     (case get_residuals_matrix ops draw s of
        (ws, Inl e) \<Rightarrow> (ws, Inl e)
      | (ws, Inr residuals_matrix) \<Rightarrow>
          (case pred_int_rows (self_method s) coverage (length fh)
                  (rm_values residuals_matrix) fh of
             Inl e \<Rightarrow> (ws, Inl e)
           | Inr rows \<Rightarrow>
               (case CI_predict ops s fh X of
                  Inl e \<Rightarrow> (ws, Inl e)
                | Inr y_pred \<Rightarrow>
                    (ws, assemble (self_method s) coverage fh y_pred rows))))"



section \<open>The quantile rules as the specification words them\<close>

text \<open>
  Section 4.3 of the specification. Step A: the entries \<open>R[i, i + h]\<close> for all valid
  \<open>i\<close>, with NaNs removed. Step B: \<open>c2\<close> duplicates each coverage, and the table gives
  the sample and the probabilities of every method tag.
\<close>

definition spec_lag_residuals :: "float list list \<Rightarrow> nat \<Rightarrow> real list" where
  "spec_lag_residuals R h =
     map (\<lambda>i. the (R ! i ! (i + h)))
       (filter (\<lambda>i. i + h < length R \<and> R ! i ! (i + h) \<noteq> None) [0 ..< length R])"

definition spec_coverage2 :: "real list \<Rightarrow> real list" where
  "spec_coverage2 cs = concat (map (\<lambda>c. [c, c]) cs)"

definition spec_quantile_input ::
  "string \<Rightarrow> real list \<Rightarrow> nat \<Rightarrow> float list list \<Rightarrow> nat \<Rightarrow> (real list \<times> real list) option" where
  "spec_quantile_input m cs H R h =
     (let r = spec_lag_residuals R h
      in if m = ''empirical''
         then Some (r, concat (map (\<lambda>c. [0.5 + (- 0.5) * c, 0.5 + 0.5 * c]) cs))
         else if m = ''empirical_residual''
         then Some (map abs r, map (\<lambda>c. 0.5 - 0.5 * c) (spec_coverage2 cs))
         else if m = ''conformal''
         then Some (map abs r, spec_coverage2 cs)
         else if m = ''conformal_bonferroni''
         then Some (map abs r, map (\<lambda>c. 1 - (1 - c) / real H) (spec_coverage2 cs))
         else None)"

section \<open>Half-widths of the methods on absolute residuals\<close>



section \<open>Two small forecasters for concrete runs\<close>

text \<open>
  A persistence forecaster: fitting remembers the last observed value, every prediction
  is that value, and the residuals are the observed values minus it. Fitting on an empty
  series fails.
\<close>

definition last_value_fit :: "float option \<Rightarrow> series \<Rightarrow> unit exog \<Rightarrow> label list option \<Rightarrow> error + float option" where
  "last_value_fit f y X fh = (if y = [] then Inl ValueError else Inr (Some (snd (last y))))"

definition last_value_residuals :: "float option \<Rightarrow> series \<Rightarrow> unit exog \<Rightarrow> error + series" where
  "last_value_residuals f y_test X =
     (case f of
        None \<Rightarrow> Inl AttributeError
      | Some v \<Rightarrow> Inr (map (\<lambda>(i, a). (i, fadd a (fmul (Some (- 1)) v))) y_test))"

definition last_value_ops :: "(float option, unit) forecaster_ops" where
  "last_value_ops =
     \<lparr> f_clone = (\<lambda>f. None),
       f_fit = last_value_fit,
       f_predict = (\<lambda>f fh X. case f of None \<Rightarrow> Inl AttributeError
                                | Some v \<Rightarrow> Inr (map (\<lambda>h. v) fh)),
       f_predict_residuals = last_value_residuals,
       f_update = (\<lambda>f y X update_params. last_value_fit f y X None) \<rparr>"

text \<open>
  The same forecaster with a horizon of one step: asked for the residuals of more than
  one step, it raises \<^verbatim>\<open>IndexError\<close>.
\<close>

definition one_step_ops :: "(float option, unit) forecaster_ops" where
  "one_step_ops =
     last_value_ops
       \<lparr> f_predict_residuals :=
           (\<lambda>f y_test X. if 1 < length y_test then Inl IndexError
                         else last_value_residuals f y_test X) \<rparr>"

text \<open>Two draws of one position out of two, as the process-wide generator may give.\<close>

definition draw_first :: "pyval \<Rightarrow> nat \<Rightarrow> error + nat list" where
  "draw_first frac' n = Inr [0]"

definition draw_second :: "pyval \<Rightarrow> nat \<Rightarrow> error + nat list" where
  "draw_second frac' n = Inr [1]"

text \<open>
  The series \<open>0, 1, 2, 4\<close> on the index \<open>0, 1, 2, 3\<close>, a wrapper as \<^verbatim>\<open>__init__\<close>
  leaves it for a method tag and \<open>initial_window = 1\<close>, and the same wrapper after
  \<^verbatim>\<open>fit(y4, fh=[1])\<close> on the persistence forecaster.
\<close>

definition y4 :: series where
  "y4 = [(0, Some 0), (1, Some 1), (2, Some 2), (3, Some 4)]"

definition new_wrapper :: "string \<Rightarrow> (float option, unit) wrapper" where
  "new_wrapper m =
     \<lparr> self_forecaster = None, self_method = m, self_verbose = False,
       self_initial_window = PyInt 1, self_sample_frac = PyNone, self_n_jobs = PyNone,
       self_fh_early' = None, self_forecaster' = None, self_residuals_matrix' = None,
       self_y = [], self_X = None \<rparr>"

definition fitted_wrapper :: "string \<Rightarrow> (float option, unit) wrapper" where
  "fitted_wrapper m = fst (CI_fit last_value_ops draw_first (new_wrapper m) y4 None (Some [1]))"

text \<open>The same series with one more observation, \<open>7\<close> at index \<open>4\<close>.\<close>

definition y5 :: series where
  "y5 = y4 @ [(4, Some 7)]"

section \<open>Properties of the window parser\<close>










section \<open>The quantile estimator is monotone in the probability\<close>



section \<open>The quantile input of every method\<close>

lemma np_repeat_two: "np_repeat cs 2 = concat (map (\<lambda>c. [c, c]) cs)"
  by (induction cs) (simp_all add: np_repeat_def numeral_2_eq_2)

lemma np_tile_Suc: "np_tile xs (Suc k) = xs @ np_tile xs k"
  by (simp add: np_tile_def)

lemma empirical_probabilities:
  "map (\<lambda>(t, c). 0.5 + t * c) (zip (np_tile [- 0.5, 0.5] (length cs)) (np_repeat cs 2))
     = concat (map (\<lambda>c. [0.5 + (- 0.5) * c, 0.5 + 0.5 * (c::real)]) cs)"
proof (induction cs)
  case Nil
  show ?case by (simp add: np_tile_def np_repeat_def)
next
  case (Cons c cs)
  have "np_repeat (c # cs) 2 = c # c # np_repeat cs 2"
    by (simp add: np_repeat_def numeral_2_eq_2)
  moreover have "np_tile [- 0.5, 0.5::real] (length (c # cs)) = - 0.5 # 0.5 # np_tile [- 0.5, 0.5] (length cs)"
    by (simp add: np_tile_Suc)
  ultimately show ?case using Cons.IH by simp
qed

lemma filter_less_upt: "filter (\<lambda>i. i < m) [0 ..< n] = [0 ..< min m n]"
proof (induction n)
  case 0
  show ?case by simp
next
  case (Suc n)
  show ?case
  proof (cases "n < m")
    case True
    then have "min m (Suc n) = Suc n" and "min m n = n" by simp_all
    then show ?thesis using Suc True by simp
  next
    case False
    then have "min m (Suc n) = m" and "min m n = m" by simp_all
    then show ?thesis using Suc False by simp
  qed
qed

lemma filter_upt_shift: "filter (\<lambda>i. i + h < n) [0 ..< n] = [0 ..< n - h]"
proof -
  have "filter (\<lambda>i. i + h < n) [0 ..< n] = filter (\<lambda>i. i < n - h) [0 ..< n]"
    by (rule filter_cong) auto
  also have "\<dots> = [0 ..< min (n - h) n]"
    by (rule filter_less_upt)
  finally show ?thesis by simp
qed

lemma square_ncols:
  assumes "\<forall>r \<in> set R. length r = length R"
  shows "(case R of [] \<Rightarrow> 0 | r # _ \<Rightarrow> length r) = length R"
  using assms by (cases R) auto

lemma lag_residuals_spec:
  assumes sq: "\<forall>r \<in> set R. length r = length R"
  shows "dropna (np_diagonal R (int h)) = spec_lag_residuals R h"
proof -
  have d: "np_diagonal R (int h) = map (\<lambda>i. R ! i ! (i + h)) [0 ..< length R - h]"
    by (simp add: np_diagonal_def Let_def square_ncols [OF sq])
  have "filter (\<lambda>i. i + h < length R \<and> R ! i ! (i + h) \<noteq> None) [0 ..< length R]
        = filter (\<lambda>i. R ! i ! (i + h) \<noteq> None) (filter (\<lambda>i. i + h < length R) [0 ..< length R])"
    by (simp add: conj_commute)
  also have "\<dots> = filter (\<lambda>i. R ! i ! (i + h) \<noteq> None) [0 ..< length R - h]"
    by (simp only: filter_upt_shift)
  finally show ?thesis
    by (simp add: d dropna_def spec_lag_residuals_def filter_map comp_def)
qed

text \<open>
  Claim C1: for a square residual matrix, a lag \<open>h\<close> and a coverage vector, the loop body
  of \<^verbatim>\<open>_predict_interval\<close> passes to \<^verbatim>\<open>np.quantile\<close> exactly the sample and the
  probabilities of the specification's table: for \<^verbatim>\<open>empirical\<close> the signed lag
  residuals at \<open>0.5 - 0.5 c, 0.5 + 0.5 c\<close> for each coverage \<open>c\<close>; for
  \<^verbatim>\<open>empirical_residual\<close> the absolute residuals at \<open>0.5 - 0.5 c2\<close>; for
  \<^verbatim>\<open>conformal\<close> at \<open>c2\<close>; for \<^verbatim>\<open>conformal_bonferroni\<close> at \<open>1 - (1 - c2) / H\<close>;
  where the lag residuals are the \<open>h\<close>-th diagonal without its NaNs and \<open>c2\<close> repeats
  each coverage.
\<close>

theorem quantile_input_per_method:
  assumes "method \<in> set ALLOWED_METHODS"
    and "\<forall>r \<in> set R. length r = length R"
  shows "\<exists>a qs. spec_quantile_input method coverage H R h = Some (a, qs)
           \<and> pred_int_row method coverage H R (int h) = np_quantile a qs"
proof -
  note r = lag_residuals_spec [OF assms(2), of h]
  consider "method = ''empirical''" | "method = ''empirical_residual''"
    | "method = ''conformal''" | "method = ''conformal_bonferroni''"
    using assms(1) by (auto simp add: ALLOWED_METHODS_def)
  then show ?thesis
  proof cases
    case 1
    have "pred_int_row method coverage H R (int h)
            = np_quantile (dropna (np_diagonal R (int h)))
                (concat (map (\<lambda>c. [0.5 + (- 0.5) * c, 0.5 + 0.5 * c]) coverage))"
      unfolding pred_int_row_def Let_def empirical_probabilities using 1 by simp
    then show ?thesis
      using 1 by (simp add: spec_quantile_input_def Let_def r)
  next
    case 2
    then show ?thesis
      by (simp add: spec_quantile_input_def pred_int_row_def Let_def r np_repeat_two spec_coverage2_def)
  next
    case 3
    then show ?thesis
      by (simp add: spec_quantile_input_def pred_int_row_def Let_def r np_repeat_two spec_coverage2_def)
  next
    case 4
    then show ?thesis
      by (simp add: spec_quantile_input_def pred_int_row_def Let_def r np_repeat_two spec_coverage2_def comp_def)
  qed
qed

theorem quantile_input_per_method_witness:
  "''conformal_bonferroni'' \<in> set ALLOWED_METHODS
   \<and> spec_quantile_input ''conformal_bonferroni'' [1 / 2] 2 [[Some 1, Some (- 3)], [None, Some 2]] 1
        = Some ([3], [3 / 4, 3 / 4])
   \<and> pred_int_row ''conformal_bonferroni'' [1 / 2] 2 [[Some 1, Some (- 3)], [None, Some 2]] 1
        = Inr [Some 3, Some 3]"
proof -
  have m: "''conformal_bonferroni'' \<in> set ALLOWED_METHODS"
    by (simp add: ALLOWED_METHODS_def)
  have sq: "\<forall>r \<in> set [[Some 1, Some (- 3)], [None, Some 2]]. length r = length [[Some 1, Some (- 3 :: real)], [None, Some 2]]"
    by simp
  have sp: "spec_quantile_input ''conformal_bonferroni'' [1 / 2] 2 [[Some 1, Some (- 3)], [None, Some 2]] 1
        = Some ([3], [3 / 4, 3 / 4])"
    by (simp add: spec_quantile_input_def spec_lag_residuals_def spec_coverage2_def Let_def)
  have q: "np_quantile [3] [3 / 4, 3 / 4] = Inr [Some 3, Some 3]"
    by (simp add: np_quantile_def quantile_linear_def)
  from quantile_input_per_method [OF m sq, of "[1 / 2]" 2 1] sp q
  have "pred_int_row ''conformal_bonferroni'' [1 / 2] 2 [[Some 1, Some (- 3)], [None, Some 2]] 1
        = Inr [Some 3, Some 3]"
    by simp
  with m sp show ?thesis by blast
qed

section \<open>The bounds of the methods on absolute residuals\<close>





lemma zip_cols:
  "zip (cols coverage) (concat (map (\<lambda>c. [w c, w c]) coverage))
     = concat (map (\<lambda>c. [((c, Lower), w c), ((c, Upper), w c)]) coverage)"
  by (induction coverage) (simp_all add: cols_def)




section \<open>Concrete runs of the model\<close>

lemmas builder_defs =
  compute_sliding_residuals_def parse_initial_window_def iloc_from_def nan_frame_def
  get_residuals_matrix_row_def get_slice_def loc_assign_row_def Let_def
  fadd_def fmul_def

lemma last_value_ops_simps:
  "f_clone last_value_ops f = None"
  "f_fit last_value_ops = last_value_fit"
  "f_predict_residuals last_value_ops = last_value_residuals"
  "f_predict last_value_ops (Some v) fh X = Inr (map (\<lambda>h. v) fh)"
  "f_update last_value_ops f y X u = last_value_fit f y X None"
  by (simp_all add: last_value_ops_def)

lemma y4_matrix:
  "compute_sliding_residuals last_value_ops draw s y4 None None (PyInt 1) PyNone False
     = ([], Inr \<lparr> rm_index = [1, 2, 3],
                  rm_values = [[Some 1, Some 2, Some 4], [None, Some 1, Some 3],
                               [None, None, Some 2]] \<rparr>)"
  by (simp add: builder_defs y4_def last_value_ops_simps last_value_fit_def
        last_value_residuals_def)

lemma fitted_wrapper_eq:
  "fitted_wrapper m =
     (new_wrapper m)
       \<lparr> self_fh_early' := Some True, self_forecaster' := Some (Some (Some 4)),
         self_residuals_matrix' :=
           Some \<lparr> rm_index = [1, 2, 3],
                  rm_values = [[Some 1, Some 2, Some 4], [None, Some 1, Some 3],
                               [None, None, Some 2]] \<rparr> \<rparr>"
proof -
  have f: "f_fit last_value_ops None y4 None (Some [1]) = Inr (Some (Some 4))"
    by (simp add: last_value_ops_simps last_value_fit_def y4_def)
  show ?thesis
    by (simp add: fitted_wrapper_def CI_fit_def new_wrapper_def last_value_ops_simps(1) f
          y4_matrix)
qed












section \<open>Symmetry around the point forecast\<close>



section \<open>Bonferroni against plain conformal\<close>



section \<open>Interval width as a function of the coverage\<close>





section \<open>An indexing failure while a row is computed\<close>

lemma one_step_ops_simps:
  "f_clone one_step_ops f = None"
  "f_fit one_step_ops = last_value_fit"
  "f_predict_residuals one_step_ops f y_test X
     = (if 1 < length y_test then Inl IndexError else last_value_residuals f y_test X)"
  by (simp_all add: one_step_ops_def last_value_ops_def)

lemma index_failure_row:
  assumes "f_fit ops forecaster (get_slice y None (Some a))
             (map_option (\<lambda>x. get_slice x None (Some a)) X)
             (Some (map fst (get_slice y (Some a) None))) = Inr fitted"
    and "f_predict_residuals ops fitted (get_slice y (Some a) None)
             (map_option (\<lambda>x. get_slice x (Some a) None) X) = Inl IndexError"
  shows "get_residuals_matrix_row ops forecaster y X a
           = ([CouldntPredict (length (get_slice y None (Some a)))], Inl UnboundLocalError)"
  using assms by (simp add: get_residuals_matrix_row_def Let_def)

text \<open>
  Claim C3 says that an \<^verbatim>\<open>IndexError\<close> of \<^verbatim>\<open>predict_residuals\<close> for one anchor gives
  a warning and an all-NaN row while the build completes. Evaluated on the series
  \<open>0, 1, 2, 4\<close> with a forecaster that cannot predict more than one step: at the first
  anchor the handler warns, and \<^verbatim>\<open>return residuals\<close> then reads the variable that the
  failed \<^verbatim>\<open>try\<close> body never bound. The row, the matrix build and \<^verbatim>\<open>fit\<close> all end
  with \<^verbatim>\<open>UnboundLocalError\<close>.
\<close>

theorem index_failure_propagates:
  "get_residuals_matrix_row one_step_ops None y4 None 1
     = ([CouldntPredict 1], Inl UnboundLocalError)
   \<and> compute_sliding_residuals one_step_ops draw_first (new_wrapper ''empirical'')
        y4 None None (PyInt 1) PyNone False
     = ([CouldntPredict 1], Inl UnboundLocalError)
   \<and> snd (CI_fit one_step_ops draw_first (new_wrapper ''empirical'') y4 None (Some [1]))
     = ([CouldntPredict 1], Some UnboundLocalError)"
proof -
  have row: "get_residuals_matrix_row one_step_ops None y4 None 1
               = ([CouldntPredict 1], Inl UnboundLocalError)"
    by (simp add: get_residuals_matrix_row_def get_slice_def Let_def y4_def
          one_step_ops_simps last_value_fit_def)
  have build: "\<And>s. compute_sliding_residuals one_step_ops draw_first s
        y4 None None (PyInt 1) PyNone False
     = ([CouldntPredict 1], Inl UnboundLocalError)"
    by (simp add: compute_sliding_residuals_def parse_initial_window_def iloc_from_def
          nan_frame_def Let_def one_step_ops_simps(1) y4_def row [unfolded y4_def])
  have f: "f_fit one_step_ops None y4 None (Some [1]) = Inr (Some (Some 4))"
    by (simp add: one_step_ops_simps last_value_fit_def y4_def)
  have "snd (CI_fit one_step_ops draw_first (new_wrapper ''empirical'') y4 None (Some [1]))
     = ([CouldntPredict 1], Some UnboundLocalError)"
    by (simp add: CI_fit_def new_wrapper_def one_step_ops_simps(1) f build)
  with row build show ?thesis by simp
qed

section \<open>When an invalid initial window is reported\<close>

text \<open>
  Claim C4, as stated: constructing the wrapper with \<open>initial_window = 5000\<close> fails. The
  constructor returns a wrapper; the value is invalid for a series of 20 observations,
  but only the parser knows.
\<close>

theorem construction_accepts_window_5000:
  "CI_init (None :: float option) (PyStr ''empirical'') (PyInt 5000) PyNone False PyNone
     = Inr ((new_wrapper ''empirical'')\<lparr> self_initial_window := PyInt 5000 \<rparr>)
   \<and> parse_initial_window 20 (PyInt 5000) = Inl ValueError"
  by (simp add: CI_init_def ALLOWED_METHODS_def new_wrapper_def parse_initial_window_def Let_def)

lemma compute_invalid_window:
  assumes "parse_initial_window (length y) iw = Inl e"
  shows "compute_sliding_residuals ops draw s y X f iw sf u = ([], Inl e)"
  using assms by (simp add: compute_sliding_residuals_def)

text \<open>
  Claim C4, amended: the constructor never checks \<open>initial_window\<close>; with a valid method
  tag it returns a wrapper for every value. A value that the parser rejects for the
  training series raises the parser's error when the residual matrix is first built: in
  \<^verbatim>\<open>fit\<close> when \<open>fh\<close> is passed to it; otherwise \<^verbatim>\<open>fit\<close> succeeds and the error is
  raised by \<^verbatim>\<open>predict_interval\<close>, which builds the matrix from the stored training
  data.
\<close>

theorem invalid_window_raised_when_matrix_built:
  assumes m: "m \<in> set ALLOWED_METHODS"
    and bad: "parse_initial_window (length y) iw = Inl e"
    and fit_early: "f_fit ops (f_clone ops f) y X (Some fh) = Inr fitted"
    and fit_late: "f_fit ops (f_clone ops f) y X None = Inr fitted0"
  shows "\<exists>s s1 s2.
           CI_init f (PyStr m) iw sf v nj = Inr s
         \<and> self_initial_window s = iw
         \<and> CI_fit ops draw s y X (Some fh) = (s1, [], Some e)
         \<and> CI_fit ops draw s y X None = (s2, [], None)
         \<and> CI_predict_interval ops draw (s2\<lparr> self_y := y, self_X := X \<rparr>) fh' X' coverage
             = ([], Inl e)"
proof -
  define s :: "('a, 'b) wrapper" where "s =
     \<lparr> self_forecaster = f, self_method = m,
       self_verbose = v, self_initial_window = iw,
       self_sample_frac = sf, self_n_jobs = nj,
       self_fh_early' = None, self_forecaster' = None,
       self_residuals_matrix' = None, self_y = [], self_X = None \<rparr>"
  have init: "CI_init f (PyStr m) iw sf v nj = Inr s"
    using m by (simp add: CI_init_def s_def)
  have early: "CI_fit ops draw s y X (Some fh)
     = (s\<lparr> self_fh_early' := Some True, self_forecaster' := Some fitted \<rparr>, [], Some e)"
    by (simp add: CI_fit_def s_def fit_early compute_invalid_window [OF bad])
  have late: "CI_fit ops draw s y X None
     = (s\<lparr> self_fh_early' := Some False, self_forecaster' := Some fitted0 \<rparr>, [], None)"
    by (simp add: CI_fit_def s_def fit_late)
  have "get_residuals_matrix ops draw
          (s\<lparr> self_fh_early' := Some False, self_forecaster' := Some fitted0,
              self_y := y, self_X := X \<rparr>) = ([], Inl e)"
    by (simp add: get_residuals_matrix_def s_def compute_invalid_window [OF bad])
  then have "CI_predict_interval ops draw
          (s\<lparr> self_fh_early' := Some False, self_forecaster' := Some fitted0,
              self_y := y, self_X := X \<rparr>) fh' X' coverage = ([], Inl e)"
    by (simp add: CI_predict_interval_def)
  with init early late show ?thesis by (auto simp add: s_def)
qed

theorem invalid_window_raised_when_matrix_built_witness:
  "\<exists>s s1 s2.
     CI_init (None :: float option) (PyStr ''empirical'') (PyInt 5000) PyNone False PyNone = Inr s
   \<and> self_initial_window s = PyInt 5000
   \<and> CI_fit last_value_ops draw_first s y4 None (Some [1]) = (s1, [], Some ValueError)
   \<and> CI_fit last_value_ops draw_first s y4 None None = (s2, [], None)
   \<and> CI_predict_interval last_value_ops draw_first (s2\<lparr> self_y := y4, self_X := None \<rparr>)
        [1] None [1 / 2] = ([], Inl ValueError)"
proof -
  have m: "''empirical'' \<in> set ALLOWED_METHODS" by (simp add: ALLOWED_METHODS_def)
  have bad: "parse_initial_window (length y4) (PyInt 5000) = Inl ValueError"
    by (simp add: parse_initial_window_def Let_def y4_def)
  have f1: "f_fit last_value_ops (f_clone last_value_ops None) y4 None (Some [1])
              = Inr (Some (Some 4))"
    by (simp add: last_value_ops_simps last_value_fit_def y4_def)
  have f2: "f_fit last_value_ops (f_clone last_value_ops None) y4 None None
              = Inr (Some (Some 4))"
    by (simp add: last_value_ops_simps last_value_fit_def y4_def)
  show ?thesis
    by (rule invalid_window_raised_when_matrix_built [OF m bad f1 f2])
qed

section \<open>A falsy sampling fraction\<close>

lemma compute_falsy:
  assumes "\<not> py_truthy sf"
  shows "compute_sliding_residuals ops draw s y X f iw sf u
       = compute_sliding_residuals ops draw' s y X f iw PyNone u"
  using assms
  by (simp add: compute_sliding_residuals_def cong: sum.case_cong option.case_cong)

lemma CI_fit_falsy:
  assumes "\<not> py_truthy sf"
  shows "snd (CI_fit ops draw (s\<lparr> self_sample_frac := sf \<rparr>) y X fh)
           = snd (CI_fit ops draw' (s\<lparr> self_sample_frac := PyNone \<rparr>) y X fh)"
    and "self_residuals_matrix' (fst (CI_fit ops draw (s\<lparr> self_sample_frac := sf \<rparr>) y X fh))
           = self_residuals_matrix' (fst (CI_fit ops draw' (s\<lparr> self_sample_frac := PyNone \<rparr>) y X fh))"
proof -
  define C where "C = compute_sliding_residuals ops draw' s y X (self_forecaster s)
                        (self_initial_window s) PyNone False"
  have e1: "\<And>t. compute_sliding_residuals ops draw t y X (self_forecaster s)
                    (self_initial_window s) sf False = C"
    using assms unfolding C_def
    by (simp add: compute_sliding_residuals_def cong: sum.case_cong option.case_cong)
  have e2: "\<And>t. compute_sliding_residuals ops draw' t y X (self_forecaster s)
                    (self_initial_window s) PyNone False = C"
    unfolding C_def
    by (simp add: compute_sliding_residuals_def cong: sum.case_cong option.case_cong)
  show "snd (CI_fit ops draw (s\<lparr> self_sample_frac := sf \<rparr>) y X fh)
           = snd (CI_fit ops draw' (s\<lparr> self_sample_frac := PyNone \<rparr>) y X fh)"
    by (cases "f_fit ops (f_clone ops (self_forecaster s)) y X fh")
       (auto simp add: CI_fit_def Let_def e1 e2 split: prod.splits sum.splits)
  show "self_residuals_matrix' (fst (CI_fit ops draw (s\<lparr> self_sample_frac := sf \<rparr>) y X fh))
           = self_residuals_matrix' (fst (CI_fit ops draw' (s\<lparr> self_sample_frac := PyNone \<rparr>) y X fh))"
    by (cases "f_fit ops (f_clone ops (self_forecaster s)) y X fh")
       (auto simp add: CI_fit_def Let_def e1 e2 split: prod.splits sum.splits)
qed

text \<open>
  Claim C10: the constructor stores \<open>sample_frac\<close> unchecked (it fails for a bad method
  tag only), and the builder treats \<open>0\<close> and \<open>0.0\<close> like \<open>None\<close>: the result, matrix or
  error, is the one of the unsampled build, whatever the random generator would draw.
  So \<^verbatim>\<open>fit\<close> on a wrapper with \<open>sample_frac = 0\<close> raises what it raises with
  \<open>sample_frac = None\<close>, emits the same warnings and stores the same matrix.
\<close>

theorem falsy_sample_frac_is_absent:
  "CI_init f (PyStr m) iw sf v nj
     = (if m \<in> set ALLOWED_METHODS
        then Inr \<lparr> self_forecaster = f, self_method = m, self_verbose = v,
                   self_initial_window = iw, self_sample_frac = sf, self_n_jobs = nj,
                   self_fh_early' = None, self_forecaster' = None,
                   self_residuals_matrix' = None, self_y = [], self_X = None \<rparr>
        else Inl ValueError)
   \<and> compute_sliding_residuals ops draw s y X forecaster initial_window (PyInt 0) update
     = compute_sliding_residuals ops draw' s y X forecaster initial_window PyNone update
   \<and> compute_sliding_residuals ops draw s y X forecaster initial_window (PyFloat 0) update
     = compute_sliding_residuals ops draw' s y X forecaster initial_window PyNone update
   \<and> snd (CI_fit ops draw (s\<lparr> self_sample_frac := PyInt 0 \<rparr>) y X fh)
     = snd (CI_fit ops draw' (s\<lparr> self_sample_frac := PyNone \<rparr>) y X fh)
   \<and> self_residuals_matrix' (fst (CI_fit ops draw (s\<lparr> self_sample_frac := PyInt 0 \<rparr>) y X fh))
     = self_residuals_matrix' (fst (CI_fit ops draw' (s\<lparr> self_sample_frac := PyNone \<rparr>) y X fh))"
proof -
  have a: "\<not> py_truthy (PyInt 0)" and b: "\<not> py_truthy (PyFloat 0)" by simp_all
  have i: "CI_init f (PyStr m) iw sf v nj
     = (if m \<in> set ALLOWED_METHODS
        then Inr \<lparr> self_forecaster = f, self_method = m, self_verbose = v,
                   self_initial_window = iw, self_sample_frac = sf, self_n_jobs = nj,
                   self_fh_early' = None, self_forecaster' = None,
                   self_residuals_matrix' = None, self_y = [], self_X = None \<rparr>
        else Inl ValueError)"
    by (simp add: CI_init_def)
  show ?thesis
    by (intro conjI i compute_falsy [OF a] compute_falsy [OF b] CI_fit_falsy [OF a])
qed

section \<open>Determinism of the matrix build\<close>




section \<open>The incremental updater\<close>

lemma parse_result_range:
  assumes "parse_initial_window n iw = Inr w"
  shows "0 \<le> w \<and> (0 < n \<longrightarrow> w < int n)"
proof (cases iw)
  case PyNone
  then show ?thesis using assms
    by (auto simp add: parse_initial_window_def Let_def split: if_splits)
next
  case (PyInt i)
  then show ?thesis using assms
    by (auto simp add: parse_initial_window_def Let_def split: if_splits)
next
  case (PyFloat x)
  then have x: "0 < x" "x < 1" and w: "w = \<lfloor>x * real n\<rfloor>"
    using assms by (auto simp add: parse_initial_window_def Let_def split: if_splits)
  have "0 \<le> x * real n" using x by simp
  then have a: "0 \<le> w" by (simp add: w)
  have "0 < n \<Longrightarrow> x * real n < real n" using x by simp
  then have "0 < n \<Longrightarrow> w < int n" unfolding w by linarith
  with a show ?thesis by simp
qed (use assms in \<open>simp_all add: parse_initial_window_def Let_def\<close>)

lemma fold_max_sorted:
  assumes "sorted (x # xs)"
  shows "fold max xs x = last (x # xs)"
  using assms
proof (induction xs arbitrary: x)
  case Nil
  show ?case by simp
next
  case (Cons a xs)
  from Cons.prems have xa: "x \<le> a" and srt: "sorted (a # xs)" by simp_all
  have "max a x = a" using xa by (rule max_absorb1)
  then have "fold max (a # xs) x = fold max xs a" by simp
  also have "\<dots> = last (a # xs)" by (rule Cons.IH [OF srt])
  finally show ?case by simp
qed

lemma index_max_sorted:
  assumes "sorted xs" "xs \<noteq> []"
  shows "index_max xs = Some (last xs)"
  using assms by (cases xs) (simp_all only: index_max.simps fold_max_sorted, simp_all)

lemma index_max_window:
  assumes srt: "sorted (map fst y)" and w: "0 \<le> w" "0 < length y \<longrightarrow> w < int (length y)"
  shows "index_max (map fst (iloc_from y w)) = index_max (map fst y)"
proof (cases "y = []")
  case True
  then show ?thesis by (simp add: iloc_from_def)
next
  case False
  then have k: "nat w < length y" using w by simp
  have d: "map fst (iloc_from y w) = drop (nat w) (map fst y)"
    using w(1) by (simp add: iloc_from_def drop_map)
  have ne: "drop (nat w) (map fst y) \<noteq> []" using k by simp
  have "sorted (drop (nat w) (map fst y))" using srt by (rule sorted_wrt_drop)
  then have "index_max (drop (nat w) (map fst y)) = Some (last (drop (nat w) (map fst y)))"
    using ne by (rule index_max_sorted)
  also have "last (drop (nat w) (map fst y)) = last (map fst y)"
    using k by simp
  also have "Some (last (map fst y)) = index_max (map fst y)"
    using index_max_sorted [OF srt] False by simp
  finally show ?thesis using d by simp
qed

lemma rm_index_loc_assign_row: "rm_index (loc_assign_row m a r) = rm_index m"
  by (simp add: loc_assign_row_def)

lemma rm_index_fold_rows:
  "rm_index (fold (\<lambda>(a, r) m. loc_assign_row m a r) rows m) = rm_index m"
  by (induction rows arbitrary: m) (simp_all add: rm_index_loc_assign_row split_def)

lemma rm_index_loc_assign_block:
  assumes "loc_assign_block m old = Inr m'"
  shows "rm_index m' = rm_index m"
  using assms by (auto simp add: loc_assign_block_def split: if_splits)

lemma compute_result_index:
  assumes "compute_sliding_residuals ops draw s y X f iw sf u = (ws, Inr m)"
  shows "\<exists>w. parse_initial_window (length y) iw = Inr w
           \<and> rm_index m = map fst (iloc_from y w)"
proof -
  from assms obtain w where w: "parse_initial_window (length y) iw = Inr w"
    by (cases "parse_initial_window (length y) iw")
       (simp_all add: compute_sliding_residuals_def)
  define idx where "idx = map fst (iloc_from y w)"
  from assms obtain y_index all_residuals m1 where
    m: "m = fold (\<lambda>(a, r) m. loc_assign_row m a r) (zip y_index all_residuals) m1"
    and m1: "m1 = nan_frame idx \<or> (\<exists>old. loc_assign_block (nan_frame idx) old = Inr m1)"
    by (auto simp add: compute_sliding_residuals_def w Let_def idx_def
          split: sum.splits option.splits prod.splits if_splits)
  have "rm_index m1 = idx"
    using m1 by (auto simp add: nan_frame_def dest: rm_index_loc_assign_block)
  then have "rm_index m = idx" by (simp add: m rm_index_fold_rows)
  with w show ?thesis by (simp add: idx_def)
qed

lemma nan_less_irrefl: "\<not> nan_less a a"
  by (simp add: nan_less_def split: option.splits)

lemma y5_update:
  "CI_update last_value_ops draw_first (fitted_wrapper ''empirical'') y5 None True
     = ((fitted_wrapper ''empirical'')
          \<lparr> self_forecaster' := Some (Some (Some 7)),
            self_residuals_matrix' :=
              Some \<lparr> rm_index = [1, 2, 3, 4],
                     rm_values = [[Some 1, Some 2, Some 4, None], [None, Some 1, Some 3, None],
                                  [None, None, Some 2, None], [None, None, None, Some 3]] \<rparr> \<rparr>,
        [], None)"
proof -
  have c: "\<And>s. self_residuals_matrix' s = 
             Some \<lparr> rm_index = [1, 2, 3],
                    rm_values = [[Some 1, Some 2, Some 4], [None, Some 1, Some 3],
                                 [None, None, Some 2]] \<rparr> \<Longrightarrow>
   compute_sliding_residuals last_value_ops draw_first s
       [(0, Some 0), (1, Some 1), (2, Some 2), (3, Some 4), (4, Some 7)]
       None (Some (Some 7)) (PyInt 1) PyNone True
     = ([], Inr \<lparr> rm_index = [1, 2, 3, 4],
                  rm_values = [[Some 1, Some 2, Some 4, None], [None, Some 1, Some 3, None],
                               [None, None, Some 2, None], [None, None, None, Some 3]] \<rparr>)"
    by (simp add: builder_defs loc_assign_block_def index_difference_def
          last_value_ops_simps last_value_fit_def last_value_residuals_def)
  show ?thesis
    by (simp add: CI_update_def fitted_wrapper_eq new_wrapper_def last_value_ops_simps
          last_value_fit_def nan_less_def c Let_def y5_def y4_def)
qed

text \<open>
  Claim C8: for a series with an ordered index, if \<^verbatim>\<open>update\<close> with some data returns
  normally, a second \<^verbatim>\<open>update\<close> with the same data leaves \<^verbatim>\<open>residuals_matrix_\<close> as
  the first call left it, whatever the sampler would draw and whether or not the
  forecaster accepts the data a second time: the matrix of the first call already ends
  at the last index of the data, so the guard of line 166 is false.
\<close>

theorem update_twice_same_matrix:
  assumes srt: "sorted (map fst y)"
    and first: "CI_update ops draw s y X update_params = (s1, ws, None)"
  shows "self_residuals_matrix' (fst (CI_update ops draw' s1 y X update_params))
           = self_residuals_matrix' s1"
proof -
  from first obtain fitted where f: "self_forecaster' s = Some fitted"
    by (cases "self_forecaster' s") (simp_all add: CI_update_def)
  from first f obtain updated where u: "f_update ops fitted y X update_params = Inr updated"
    by (cases "f_update ops fitted y X update_params") (simp_all add: CI_update_def)
  from first f u obtain old where o: "self_residuals_matrix' s = Some old"
    by (cases "self_residuals_matrix' s") (simp_all add: CI_update_def Let_def)
  have "\<exists>m1. self_residuals_matrix' s1 = Some m1 \<and> self_forecaster' s1 = Some updated
          \<and> \<not> nan_less (index_max (rm_index m1)) (index_max (map fst y))"
  proof (cases "nan_less (index_max (rm_index old)) (index_max (map fst y))")
    case False
    then have "s1 = s\<lparr> self_forecaster' := Some updated \<rparr>"
      using first f u o by (simp add: CI_update_def Let_def)
    then show ?thesis using False o by simp
  next
    case True
    then obtain m where c: "compute_sliding_residuals ops draw (s\<lparr> self_forecaster' := Some updated \<rparr>)
        y X updated (self_initial_window s) (self_sample_frac s) True = (ws, Inr m)"
      and s1: "s1 = s\<lparr> self_forecaster' := Some updated, self_residuals_matrix' := Some m \<rparr>"
      using first f u o
      by (auto simp add: CI_update_def Let_def split: prod.splits sum.splits)
    from compute_result_index [OF c] obtain w where
      w: "parse_initial_window (length y) (self_initial_window s) = Inr w"
      and idx: "rm_index m = map fst (iloc_from y w)" by blast
    have "index_max (rm_index m) = index_max (map fst y)"
      unfolding idx using parse_result_range [OF w] by (intro index_max_window [OF srt]) simp_all
    then show ?thesis using s1 by (simp add: nan_less_irrefl)
  qed
  then obtain m1 where m1: "self_residuals_matrix' s1 = Some m1"
    and f1: "self_forecaster' s1 = Some updated"
    and n: "\<not> nan_less (index_max (rm_index m1)) (index_max (map fst y))" by blast
  show ?thesis
  proof (cases "f_update ops updated y X update_params")
    case (Inl e)
    then show ?thesis using f1 by (simp add: CI_update_def)
  next
    case (Inr u2)
    then show ?thesis using f1 m1 n by (simp add: CI_update_def Let_def)
  qed
qed

theorem update_twice_same_matrix_witness:
  "sorted (map fst y5)
   \<and> self_residuals_matrix'
       (fst (CI_update last_value_ops draw_second
               (fst (CI_update last_value_ops draw_first (fitted_wrapper ''empirical'') y5 None True))
               y5 None True))
     = Some \<lparr> rm_index = [1, 2, 3, 4],
              rm_values = [[Some 1, Some 2, Some 4, None], [None, Some 1, Some 3, None],
                           [None, None, Some 2, None], [None, None, None, Some 3]] \<rparr>"
proof -
  have srt: "sorted (map fst y5)" by (simp add: y5_def y4_def)
  from update_twice_same_matrix [OF srt y5_update, of draw_second] srt
  show ?thesis by (simp add: y5_update)
qed

end
